theory Spec2Isabelle
  imports Main "HOL-Library.Sublist"
begin

section \<open>JavaScript values used by the NUBAN engine\<close>

text \<open>
  A JavaScript string is modelled as a \<open>string\<close> (a list of characters), one \<open>char\<close> per
  UTF-16 code unit; \<open>length\<close> is the source's \<open>.length\<close>. Isabelle's \<open>char\<close> covers the code
  units 0 to 255, which contains every digit and every other ASCII character.

  The only numbers the engine computes are exact integers (sums of products of 3 or 7 with a
  one-digit value, far below \<open>2 ^ 53\<close> for every string a JavaScript engine can hold) and
  \<open>NaN\<close>, which arises from \<open>Number\<close> of a non-numeric character or of \<open>undefined\<close>.
\<close>

datatype number = Num int | NaN

fun num_add :: "number \<Rightarrow> number \<Rightarrow> number" where
  "num_add (Num a) (Num b) = Num (a + b)"
| "num_add _ _ = NaN"

fun num_sub :: "number \<Rightarrow> number \<Rightarrow> number" where
  "num_sub (Num a) (Num b) = Num (a - b)"
| "num_sub _ _ = NaN"

fun num_mul :: "number \<Rightarrow> number \<Rightarrow> number" where
  "num_mul (Num a) (Num b) = Num (a * b)"
| "num_mul _ _ = NaN"

text \<open>The remainder operator \<open>%\<close>: the result takes the sign of the dividend, and a zero
  divisor gives \<open>NaN\<close>.\<close>

fun num_rem :: "number \<Rightarrow> number \<Rightarrow> number" where
  "num_rem (Num a) (Num b) =
     (if b = 0 then NaN
      else if a < 0 then Num (- ((- a) mod \<bar>b\<bar>))
      else Num (a mod \<bar>b\<bar>))"
| "num_rem _ _ = NaN"

text \<open>Strict equality \<open>===\<close> on numbers: \<open>NaN\<close> equals nothing, itself included.\<close>

fun strict_eq :: "number \<Rightarrow> number \<Rightarrow> bool" where
  "strict_eq (Num a) (Num b) = (a = b)"
| "strict_eq _ _ = False"

definition isDigit :: "char \<Rightarrow> bool" where
  "isDigit c = (48 \<le> (of_char c :: nat) \<and> (of_char c :: nat) \<le> 57)"

text \<open>The white space and line terminator code units below 256: TAB, LF, VT, FF, CR, SP, NBSP.\<close>

definition isStrWhiteSpace :: "char \<Rightarrow> bool" where
  "isStrWhiteSpace c = ((of_char c :: nat) \<in> set [9, 10, 11, 12, 13, 32, 160])"

text \<open>\<open>Number(s)\<close> for a one-character string \<open>s\<close> (an element of \<open>split("")\<close>, or \<open>str[i]\<close>
  in range): a digit is its value, white space trims to the empty string and is 0, anything
  else is \<open>NaN\<close>.\<close>

definition digit_value :: "char \<Rightarrow> int" where
  "digit_value c = int (of_char c) - int (of_char (CHR ''0''))"

definition Number_char :: "char \<Rightarrow> number" where
  "Number_char c =
     (if isDigit c then Num (digit_value c)
      else if isStrWhiteSpace c then Num 0
      else NaN)"

text \<open>\<open>str[i]\<close> is \<open>undefined\<close> out of range, and \<open>Number(undefined)\<close> is \<open>NaN\<close>.\<close>

definition char_at :: "string \<Rightarrow> nat \<Rightarrow> char option" where
  "char_at s i = (if i < length s then Some (s ! i) else None)"

fun Number_index :: "char option \<Rightarrow> number" where
  "Number_index None = NaN"
| "Number_index (Some c) = Number_char c"

text \<open>\<open>s.padStart(n, "0")\<close> with a one-character filler, and \<open>s.substring(0, n)\<close>.\<close>

definition padStart :: "string \<Rightarrow> nat \<Rightarrow> char \<Rightarrow> string" where
  "padStart s n filler = (if n \<le> length s then s else replicate (n - length s) filler @ s)"

definition substring0 :: "string \<Rightarrow> nat \<Rightarrow> string" where
  "substring0 s n = take n s"

text \<open>Conversion of a number to a string, as string concatenation and template literals
  perform it: decimal digits for an integer (of the size that occurs here, below \<open>10 ^ 21\<close>),
  \<open>NaN\<close> for \<open>NaN\<close>.\<close>

definition digit_char :: "nat \<Rightarrow> char" where
  "digit_char d = char_of (of_char (CHR ''0'') + d)"

fun decimal :: "nat \<Rightarrow> string" where
  "decimal n = (if n div 10 = 0 then [] else decimal (n div 10)) @ [digit_char (n mod 10)]"

declare decimal.simps [simp del]

fun number_toString :: "number \<Rightarrow> string" where
  "number_toString NaN = ''NaN''"
| "number_toString (Num i) = (if i < 0 then CHR ''-'' # decimal (nat (- i)) else decimal (nat i))"

declare number_toString.simps [simp del]

section \<open>Constants and the bank record\<close>

definition NUBAN_LENGTH :: nat where
  "NUBAN_LENGTH = 10"

definition NUBAN_SERIAL_CODE_LENGTH :: nat where
  "NUBAN_SERIAL_CODE_LENGTH = 9"

text \<open>The interface \<open>Bank\<close>; its field \<open>id\<close> is \<open>bank_id\<close> here, \<open>id\<close> being the identity
  function of HOL. The optional fields are options.\<close>

record Bank =
  bank_id :: int
  slug :: string
  name :: string
  code :: string
  oldCode :: "string option"
  weight :: "int option"

datatype BankProperty = SLUG | CODE | OLD_CODE

datatype error = Error string

text \<open>The curated registry \<open>WEIGHTED_NIGERIAN_BANKS\<close>, entry by entry.\<close>

definition WEIGHTED_NIGERIAN_BANKS :: "Bank list" where
  "WEIGHTED_NIGERIAN_BANKS = [
    \<lparr>bank_id = 1, slug = ''access_bank'', name = ''ACCESS BANK'', code = ''000014'',
      oldCode = Some ''044'', weight = Some 1\<rparr>,
    \<lparr>bank_id = 2, slug = ''access_diamond_bank'', name = ''ACCESS(DIAMOND) BANK'', code = ''000014'',
      oldCode = Some ''063'', weight = Some 1\<rparr>,
    \<lparr>bank_id = 3, slug = ''citi_bank'', name = ''CITI BANK'', code = ''000009'',
      oldCode = Some ''023'', weight = Some 1\<rparr>,
    \<lparr>bank_id = 4, slug = ''ecobank'', name = ''ECOBANK NIGERIA'', code = ''000010'',
      oldCode = Some ''050'', weight = Some 1\<rparr>,
    \<lparr>bank_id = 5, slug = ''enterprise_bank'', name = ''ENTERPRISE BANK'', code = ''000019'',
      oldCode = Some ''084'', weight = Some 1\<rparr>,
    \<lparr>bank_id = 6, slug = ''fidelity_bank'', name = ''FIDELITY BANK'', code = ''000007'',
      oldCode = Some ''070'', weight = Some 1\<rparr>,
    \<lparr>bank_id = 7, slug = ''first_bank_of_nigeria'', name = ''FIRST BANK OF NIGERIA'', code = ''000016'',
      oldCode = Some ''011'', weight = Some 1\<rparr>,
    \<lparr>bank_id = 8, slug = ''first_city_monument_bank'', name = ''FIRST CITY MONUMENT BANK'', code = ''000003'',
      oldCode = Some ''214'', weight = Some 1\<rparr>,
    \<lparr>bank_id = 9, slug = ''globus_bank'', name = ''GLOBUS BANK'', code = ''000027'',
      oldCode = Some ''103'', weight = Some 1\<rparr>,
    \<lparr>bank_id = 10, slug = ''guarantee_trust_bank'', name = ''GUARANTY TRUST BANK'', code = ''000013'',
      oldCode = Some ''058'', weight = Some 1\<rparr>,
    \<lparr>bank_id = 11, slug = ''heritage_bank'', name = ''HERITAGE BANK'', code = ''000020'',
      oldCode = Some ''030'', weight = Some 1\<rparr>,
    \<lparr>bank_id = 12, slug = ''jaiz_bank'', name = ''JAIZ BANK'', code = ''000006'',
      oldCode = Some ''301'', weight = Some 1\<rparr>,
    \<lparr>bank_id = 13, slug = ''keystone_bank'', name = ''KEYSTONE BANK'', code = ''000002'',
      oldCode = Some ''082'', weight = Some 1\<rparr>,
    \<lparr>bank_id = 14, slug = ''lotus_bank'', name = ''LOTUS BANK'', code = ''000029'',
      oldCode = Some ''303'', weight = Some 1\<rparr>,
    \<lparr>bank_id = 15, slug = ''mainstreet_microfinance_bank'', name = ''MAINSTREET MICROFINANCE BANK'', code = ''090171'',
      oldCode = Some ''014'', weight = Some 1\<rparr>,
    \<lparr>bank_id = 16, slug = ''optimus_bank'', name = ''OPTIMUS BANK'', code = ''000036'',
      oldCode = Some ''107'', weight = Some 1\<rparr>,
    \<lparr>bank_id = 17, slug = ''parallex_bank'', name = ''PARALLEX BANK'', code = ''000030'',
      oldCode = Some ''104'', weight = Some 1\<rparr>,
    \<lparr>bank_id = 18, slug = ''polaris_bank'', name = ''POLARIS BANK'', code = ''000008'',
      oldCode = Some ''076'', weight = Some 1\<rparr>,
    \<lparr>bank_id = 19, slug = ''premium_trust_bank'', name = ''PREMIUM TRUST  BANK'', code = ''000031'',
      oldCode = Some ''105'', weight = Some 1\<rparr>,
    \<lparr>bank_id = 20, slug = ''providus_bank'', name = ''PROVIDUS BANK'', code = ''000023'',
      oldCode = Some ''101'', weight = Some 1\<rparr>,
    \<lparr>bank_id = 21, slug = ''signature_bank'', name = ''SIGNATURE BANK'', code = ''000034'',
      oldCode = Some ''106'', weight = Some 1\<rparr>,
    \<lparr>bank_id = 22, slug = ''stanbic_ibtc_bank'', name = ''STANBIC IBTC BANK'', code = ''000012'',
      oldCode = Some ''221'', weight = Some 1\<rparr>,
    \<lparr>bank_id = 23, slug = ''standard_chartered_bank'', name = ''STANDARD CHARTERED BANK'', code = ''000021'',
      oldCode = Some ''068'', weight = Some 1\<rparr>,
    \<lparr>bank_id = 24, slug = ''sterling_bank'', name = ''STERLING BANK'', code = ''000001'',
      oldCode = Some ''232'', weight = Some 1\<rparr>,
    \<lparr>bank_id = 25, slug = ''suntrust_bank'', name = ''SUNTRUST'', code = ''000022'',
      oldCode = Some ''100'', weight = Some 1\<rparr>,
    \<lparr>bank_id = 26, slug = ''titan_trust_bank'', name = ''TITAN TRUST BANK'', code = ''000025'',
      oldCode = Some ''102'', weight = Some 1\<rparr>,
    \<lparr>bank_id = 27, slug = ''union_bank'', name = ''UNION BANK'', code = ''000018'',
      oldCode = Some ''032'', weight = Some 1\<rparr>,
    \<lparr>bank_id = 28, slug = ''united_bank_for_africa'', name = ''UNITED BANK FOR AFRICA'', code = ''000004'',
      oldCode = Some ''033'', weight = Some 1\<rparr>,
    \<lparr>bank_id = 29, slug = ''unity_bank'', name = ''UNITY BANK'', code = ''000011'',
      oldCode = Some ''215'', weight = Some 1\<rparr>,
    \<lparr>bank_id = 30, slug = ''wema_bank'', name = ''WEMA BANK'', code = ''000017'',
      oldCode = Some ''035'', weight = Some 1\<rparr>,
    \<lparr>bank_id = 31, slug = ''zenith_bank'', name = ''ZENITH BANK'', code = ''000015'',
      oldCode = Some ''057'', weight = Some 1\<rparr>]"

section \<open>The check-digit engine\<close>

text \<open>\<open>validateNuban\<close>: the length is exactly \<open>NUBAN_LENGTH\<close> and the string matches
  \<open>/^\d+$/\<close>, that is, it is non-empty and every character is a digit.\<close>

definition validateNuban :: "string \<Rightarrow> bool" where
  "validateNuban accountNumber =
     (length accountNumber = NUBAN_LENGTH \<and> accountNumber \<noteq> [] \<and> list_all isDigit accountNumber)"

text \<open>\<open>generateSeed\<close>: \<open>Array.from({ length }, (_, i) => (i % 2 ? 7 : 3))\<close>.\<close>

definition generateSeed :: "nat \<Rightarrow> int list" where
  "generateSeed len = map (\<lambda>i. if i mod 2 \<noteq> 0 then 7 else 3) [0..<len]"

text \<open>\<open>seed[index]\<close>: \<open>undefined\<close> out of range, which arithmetic turns into \<open>NaN\<close>.\<close>

definition seed_at :: "int list \<Rightarrow> nat \<Rightarrow> number" where
  "seed_at seed index = (if index < length seed then Num (seed ! index) else NaN)"

text \<open>\<open>validateNubanSerialCode\<close> throws on a falsy (empty) serial and on one longer than
  \<open>NUBAN_SERIAL_CODE_LENGTH\<close>; otherwise it returns \<open>true\<close>.\<close>

definition validateNubanSerialCode :: "string \<Rightarrow> error + bool" where
  "validateNubanSerialCode nubanSerialCode =
     (if nubanSerialCode = [] \<or> length nubanSerialCode > NUBAN_SERIAL_CODE_LENGTH
      then Inl (Error (''Nuban serial code should not be more than ''
                        @ number_toString (Num (int NUBAN_SERIAL_CODE_LENGTH)) @ '' digits''))
      else Inr True)"

text \<open>The \<open>reduce\<close> over \<open>crypto.split("")\<close>:
  \<open>(sum, digit, index) => sum + seed[index] * Number(digit)\<close>.\<close>

fun reduce_sum :: "int list \<Rightarrow> nat \<Rightarrow> number \<Rightarrow> string \<Rightarrow> number" where
  "reduce_sum seed index sum0 [] = sum0"
| "reduce_sum seed index sum0 (digit # rest) =
     reduce_sum seed (Suc index) (num_add sum0 (num_mul (seed_at seed index) (Number_char digit))) rest"

definition generateCheckDigit :: "string \<Rightarrow> string \<Rightarrow> error + number" where
  "generateCheckDigit nubanSerialCode bankCode =
     (case validateNubanSerialCode nubanSerialCode of
        Inl e \<Rightarrow> Inl e
      | Inr _ \<Rightarrow>
          (let paddedCode = padStart nubanSerialCode NUBAN_SERIAL_CODE_LENGTH (CHR ''0'');
               crypto = bankCode @ paddedCode;
               seed = generateSeed (length crypto);
               cryptoSum = reduce_sum seed 0 (Num 0) crypto;
               modulo = num_rem cryptoSum (Num 10)
           in Inr (num_sub (num_sub (Num 10) modulo) (Num 1))))"

definition isPossibleNubanBank :: "string \<Rightarrow> string \<Rightarrow> error + bool" where
  "isPossibleNubanBank accountNumber bankCode =
     (let nubanSerialCode = substring0 accountNumber 9
      in case generateCheckDigit nubanSerialCode bankCode of
           Inl e \<Rightarrow> Inl e
         | Inr checkDigit \<Rightarrow> Inr (strict_eq checkDigit (Number_index (char_at accountNumber 9))))"

text \<open>\<open>getPossibleNubanBanks\<close> is \<open>banks.filter\<close> with \<open>isPossibleNubanBank\<close> on each bank's
  \<open>code\<close>; an exception thrown by the callback ends the whole call. The default value of
  \<open>banks\<close> (the full registry) is passed explicitly.\<close>

fun getPossibleNubanBanks :: "string \<Rightarrow> Bank list \<Rightarrow> error + Bank list" where
  "getPossibleNubanBanks accountNumber [] = Inr []"
| "getPossibleNubanBanks accountNumber (bank # banks) =
     (case isPossibleNubanBank accountNumber (code bank) of
        Inl e \<Rightarrow> Inl e
      | Inr keep \<Rightarrow>
          (case getPossibleNubanBanks accountNumber banks of
             Inl e \<Rightarrow> Inl e
           | Inr kept \<Rightarrow> Inr (if keep then bank # kept else kept)))"

section \<open>The documented reference algorithm\<close>

text \<open>
  The check digit as the documentation words it, independently of the code: pad the serial
  on the left with zeros to 9 digits, put the bank code in front, build the weights
  3, 7, 3, 7, ... of the same length, sum weight times digit over all positions, reduce
  modulo 10 and return \<open>10 - modulo - 1\<close>.
\<close>

definition spec_padded :: "string \<Rightarrow> string" where
  "spec_padded serial = replicate (9 - length serial) (CHR ''0'') @ serial"

definition spec_weights :: "nat \<Rightarrow> int list" where
  "spec_weights n = take n (concat (replicate n [3, 7]))"

definition spec_weighted_sum :: "string \<Rightarrow> int" where
  "spec_weighted_sum ds =
     sum_list (map (\<lambda>i. spec_weights (length ds) ! i * digit_value (ds ! i)) [0..<length ds])"

definition spec_check_digit :: "string \<Rightarrow> string \<Rightarrow> int" where
  "spec_check_digit serial bankCode =
     10 - spec_weighted_sum (bankCode @ spec_padded serial) mod 10 - 1"

text \<open>The error condition the documentation calls \<open>InvalidSerialLength\<close>.\<close>

definition InvalidSerialLength :: error where
  "InvalidSerialLength = Error ''Nuban serial code should not be more than 9 digits''"

text \<open>The round trip \<open>isPossibleNubanBank(S + checkDigit, B)\<close> with
  \<open>checkDigit = generateCheckDigit(S, B)\<close>; the \<open>+\<close> is string concatenation.\<close>

definition round_trip :: "string \<Rightarrow> string \<Rightarrow> error + bool" where
  "round_trip serial bankCode =
     (case generateCheckDigit serial bankCode of
        Inl e \<Rightarrow> Inl e
      | Inr checkDigit \<Rightarrow> isPossibleNubanBank (serial @ number_toString checkDigit) bankCode)"

text \<open>The weighted sum the loop of \<open>generateCheckDigit\<close> accumulates on a string of digits,
  from position \<open>i\<close> on.\<close>

fun digit_sum :: "nat \<Rightarrow> string \<Rightarrow> int" where
  "digit_sum i [] = 0"
| "digit_sum i (c # cs) = (if even i then 3 else 7) * digit_value c + digit_sum (Suc i) cs"

section \<open>Registry lookup\<close>

text \<open>
  Modelled from the spec: \<open>getBank\<close> and the full registry \<open>NIGERIAN_BANKS\<close> are not among
  the source files, only the curated list \<open>WEIGHTED_NIGERIAN_BANKS\<close> is. The lookup returns
  the first record whose slug, canonical code or legacy code equals the value, or nothing;
  a lookup by legacy code searches the weighted list only, a lookup by slug or canonical code
  the full list, which is a parameter here.
\<close>

definition getBank :: "Bank list \<Rightarrow> Bank list \<Rightarrow> string \<Rightarrow> BankProperty \<Rightarrow> Bank option" where
  "getBank banks weightedBanks v property =
     (case property of
        SLUG \<Rightarrow> find (\<lambda>bank. slug bank = v) banks
      | CODE \<Rightarrow> find (\<lambda>bank. code bank = v) banks
      | OLD_CODE \<Rightarrow> find (\<lambda>bank. oldCode bank = Some v) weightedBanks)"

section \<open>The class's static state and sequences of calls\<close>

text \<open>
  The class \<open>Nuban\<close> holds two static fields, \<open>banks\<close> and \<open>weightedBanks\<close>. They are public
  and not read-only, so code using the class can assign to them between calls, and
  \<open>getPossibleNubanBanks\<close> reads \<open>Nuban.banks\<close> when its second argument is left out. To state
  what a call can depend on, the static methods are written once more as operations on this
  state: an operation takes the state and returns a value or a thrown error, and the state
  after it. A call of one method by another through \<open>this\<close> is \<open>op_bind\<close>, which hands the
  state on and lets an error pass. Redefining a method at run time is outside the model.
\<close>

record Nuban_static =
  static_banks :: "Bank list"
  static_weightedBanks :: "Bank list"

type_synonym 'a static_op = "Nuban_static \<Rightarrow> (error + 'a) \<times> Nuban_static"

definition op_return :: "'a \<Rightarrow> 'a static_op" where
  "op_return x = (\<lambda>st. (Inr x, st))"

definition op_throw :: "error \<Rightarrow> 'a static_op" where
  "op_throw e = (\<lambda>st. (Inl e, st))"

definition op_bind :: "'a static_op \<Rightarrow> ('a \<Rightarrow> 'b static_op) \<Rightarrow> 'b static_op" where
  "op_bind m f = (\<lambda>st. case m st of (Inl e, st') \<Rightarrow> (Inl e, st') | (Inr x, st') \<Rightarrow> f x st')"

text \<open>Reading the static field \<open>Nuban.banks\<close>.\<close>

definition read_banks :: "Bank list static_op" where
  "read_banks = (\<lambda>st. (Inr (static_banks st), st))"

definition generateSeed_op :: "nat \<Rightarrow> int list static_op" where
  "generateSeed_op len = op_return (map (\<lambda>i. if i mod 2 \<noteq> 0 then 7 else 3) [0..<len])"

definition validateNubanSerialCode_op :: "string \<Rightarrow> bool static_op" where
  "validateNubanSerialCode_op nubanSerialCode =
     (if nubanSerialCode = [] \<or> length nubanSerialCode > NUBAN_SERIAL_CODE_LENGTH
      then op_throw (Error (''Nuban serial code should not be more than ''
                        @ number_toString (Num (int NUBAN_SERIAL_CODE_LENGTH)) @ '' digits''))
      else op_return True)"

definition generateCheckDigit_op :: "string \<Rightarrow> string \<Rightarrow> number static_op" where
  "generateCheckDigit_op nubanSerialCode bankCode =
     op_bind (validateNubanSerialCode_op nubanSerialCode) (\<lambda>_.
       let paddedCode = padStart nubanSerialCode NUBAN_SERIAL_CODE_LENGTH (CHR ''0'');
           crypto = bankCode @ paddedCode
       in op_bind (generateSeed_op (length crypto)) (\<lambda>seed.
            let cryptoSum = reduce_sum seed 0 (Num 0) crypto;
                modulo = num_rem cryptoSum (Num 10)
            in op_return (num_sub (num_sub (Num 10) modulo) (Num 1))))"

definition isPossibleNubanBank_op :: "string \<Rightarrow> string \<Rightarrow> bool static_op" where
  "isPossibleNubanBank_op accountNumber bankCode =
     (let nubanSerialCode = substring0 accountNumber 9
      in op_bind (generateCheckDigit_op nubanSerialCode bankCode) (\<lambda>checkDigit.
           op_return (strict_eq checkDigit (Number_index (char_at accountNumber 9)))))"

text \<open>\<open>Array.prototype.filter\<close> with a callback that is an operation on the state.\<close>

fun filter_op :: "('a \<Rightarrow> bool static_op) \<Rightarrow> 'a list \<Rightarrow> 'a list static_op" where
  "filter_op p [] = op_return []"
| "filter_op p (x # xs) =
     op_bind (p x) (\<lambda>keep.
       op_bind (filter_op p xs) (\<lambda>kept. op_return (if keep then x # kept else kept)))"

text \<open>\<open>getPossibleNubanBanks\<close> with its optional second argument: left out, it is
  \<open>Nuban.banks\<close> as it stands when the call is made.\<close>

definition getPossibleNubanBanks_op :: "string \<Rightarrow> Bank list option \<Rightarrow> Bank list static_op" where
  "getPossibleNubanBanks_op accountNumber banksArg =
     op_bind (case banksArg of None \<Rightarrow> read_banks | Some given \<Rightarrow> op_return given) (\<lambda>candidates.
       filter_op (\<lambda>bank. isPossibleNubanBank_op accountNumber (code bank)) candidates)"

text \<open>What a program using the class can do, one step at a time: call a static method, or
  assign to a static field. A thrown error is part of a call's outcome, as for a caller that
  catches it.\<close>

datatype call =
    GenerateCheckDigit string string
  | IsPossibleNubanBank string string
  | GetPossibleNubanBanks string "Bank list option"
  | AssignBanks "Bank list"
  | AssignWeightedBanks "Bank list"

datatype outcome =
    CheckDigit "error + number"
  | Possible "error + bool"
  | PossibleBanks "error + Bank list"
  | Assigned

fun exec :: "call \<Rightarrow> Nuban_static \<Rightarrow> outcome \<times> Nuban_static" where
  "exec (GenerateCheckDigit nubanSerialCode bankCode) st =
     (case generateCheckDigit_op nubanSerialCode bankCode st of (r, st') \<Rightarrow> (CheckDigit r, st'))"
| "exec (IsPossibleNubanBank accountNumber bankCode) st =
     (case isPossibleNubanBank_op accountNumber bankCode st of (r, st') \<Rightarrow> (Possible r, st'))"
| "exec (GetPossibleNubanBanks accountNumber banksArg) st =
     (case getPossibleNubanBanks_op accountNumber banksArg st of (r, st') \<Rightarrow> (PossibleBanks r, st'))"
| "exec (AssignBanks given) st = (Assigned, st\<lparr>static_banks := given\<rparr>)"
| "exec (AssignWeightedBanks given) st = (Assigned, st\<lparr>static_weightedBanks := given\<rparr>)"

text \<open>The state after a sequence of steps, and the outcome of a call made after it.\<close>

fun run :: "call list \<Rightarrow> Nuban_static \<Rightarrow> Nuban_static" where
  "run [] st = st"
| "run (c # history) st = run history (snd (exec c st))"

definition outcome_after :: "call list \<Rightarrow> Nuban_static \<Rightarrow> call \<Rightarrow> outcome" where
  "outcome_after history st c = fst (exec c (run history st))"

section \<open>Facts about the engine on strings of digits\<close>

lemma validateNubanSerialCode_empty:
  "validateNubanSerialCode [] = Inl (Error ''Nuban serial code should not be more than 9 digits'')"
  by code_simp

lemma validateNubanSerialCode_ok:
  "s \<noteq> [] \<Longrightarrow> length s \<le> 9 \<Longrightarrow> validateNubanSerialCode s = Inr True"
  by (simp add: validateNubanSerialCode_def NUBAN_SERIAL_CODE_LENGTH_def)

lemma empty_serial_rejected: "generateCheckDigit [] bankCode = Inl InvalidSerialLength"
  by (simp add: generateCheckDigit_def validateNubanSerialCode_empty InvalidSerialLength_def)

lemma long_serial_rejected:
  "9 < length serial \<Longrightarrow> generateCheckDigit serial bankCode = Inl InvalidSerialLength"
proof -
  assume "9 < length serial"
  then have "validateNubanSerialCode serial = validateNubanSerialCode []"
    by (simp add: validateNubanSerialCode_def NUBAN_SERIAL_CODE_LENGTH_def)
  then show ?thesis
    by (simp add: generateCheckDigit_def validateNubanSerialCode_empty InvalidSerialLength_def)
qed

lemma serial_accepted:
  "serial \<noteq> [] \<Longrightarrow> length serial \<le> 9 \<Longrightarrow>
   \<exists>checkDigit. generateCheckDigit serial bankCode = Inr checkDigit"
  by (simp add: generateCheckDigit_def validateNubanSerialCode_ok Let_def)

text \<open>The seed alternates 3 and 7 throughout; the example in the doc comment of
  \<open>generateSeed\<close>, 3, 7, 3, 3, 7, 3, 3, 7, 3, is not what the function returns.\<close>

lemma generateSeed_nine: "generateSeed 9 = [3, 7, 3, 7, 3, 7, 3, 7, 3]"
  by code_simp

lemma Number_char_digit: "isDigit c \<Longrightarrow> Number_char c = Num (digit_value c)"
  by (simp add: Number_char_def digit_value_def)

lemma digit_value_range: "isDigit c \<Longrightarrow> 0 \<le> digit_value c \<and> digit_value c \<le> 9"
  by (auto simp: isDigit_def digit_value_def)

lemma seed_at_generateSeed:
  "i < len \<Longrightarrow> seed_at (generateSeed len) i = Num (if even i then 3 else 7)"
  by (simp add: seed_at_def generateSeed_def even_iff_mod_2_eq_zero)

lemma reduce_sum_digits:
  "list_all isDigit cs \<Longrightarrow> i + length cs \<le> len \<Longrightarrow>
   reduce_sum (generateSeed len) i (Num a) cs = Num (a + digit_sum i cs)"
proof (induction cs arbitrary: i a)
  case Nil
  then show ?case by simp
next
  case (Cons c cs)
  from Cons.prems have c: "isDigit c" and cs: "list_all isDigit cs"
    and i: "i < len" and rest: "Suc i + length cs \<le> len"
    by simp_all
  show ?case
    using Cons.IH [OF cs rest] c i
    by (simp add: seed_at_generateSeed Number_char_digit algebra_simps)
qed

lemma digit_sum_nonneg: "list_all isDigit cs \<Longrightarrow> 0 \<le> digit_sum i cs"
proof (induction cs arbitrary: i)
  case Nil
  then show ?case by simp
next
  case (Cons c cs)
  then have "0 \<le> digit_value c" and "0 \<le> digit_sum (Suc i) cs"
    by (simp_all add: digit_value_range)
  then show ?case by simp
qed

lemma padStart_digits:
  "list_all isDigit s \<Longrightarrow> list_all isDigit (padStart s n (CHR ''0''))"
  by (simp add: padStart_def isDigit_def list_all_iff)

lemma check_digit_closed_form:
  assumes "s \<noteq> []" "length s \<le> 9" "list_all isDigit s" "list_all isDigit b"
  shows "generateCheckDigit s b =
         Inr (Num (9 - digit_sum 0 (b @ padStart s 9 (CHR ''0'')) mod 10))"
proof -
  let ?crypto = "b @ padStart s 9 (CHR ''0'')"
  have digits: "list_all isDigit ?crypto"
    using assms(3,4) by (simp add: padStart_digits)
  have sum: "reduce_sum (generateSeed (length ?crypto)) 0 (Num 0) ?crypto = Num (digit_sum 0 ?crypto)"
    using reduce_sum_digits [OF digits, of 0 "length ?crypto" 0] by simp
  have "0 \<le> digit_sum 0 ?crypto"
    using digits by (rule digit_sum_nonneg)
  then show ?thesis
    using sum assms(1,2)
    by (simp add: generateCheckDigit_def validateNubanSerialCode_ok NUBAN_SERIAL_CODE_LENGTH_def Let_def)
qed

lemma check_digit_range:
  "list_all isDigit cs \<Longrightarrow> 0 \<le> 9 - digit_sum 0 cs mod 10 \<and> 9 - digit_sum 0 cs mod 10 \<le> 9"
proof -
  have "0 \<le> digit_sum 0 cs mod 10" and "digit_sum 0 cs mod 10 < 10"
    by simp_all
  then show ?thesis by linarith
qed

lemma check_digit_in_range:
  assumes "serial \<noteq> []" "length serial \<le> 9" "list_all isDigit serial" "list_all isDigit bankCode"
  shows "\<exists>d. generateCheckDigit serial bankCode = Inr (Num d) \<and> 0 \<le> d \<and> d \<le> 9"
proof -
  have "list_all isDigit (bankCode @ padStart serial 9 (CHR ''0''))"
    using assms(3,4) by (simp add: padStart_digits)
  from check_digit_range [OF this] check_digit_closed_form [OF assms]
  show ?thesis by blast
qed

subsection \<open>The reference algorithm computes the same weighted sum\<close>

lemma concat_replicate_nth:
  "i < 2 * n \<Longrightarrow> concat (replicate n [3, 7 :: int]) ! i = (if even i then 3 else 7)"
proof (induction n arbitrary: i)
  case 0
  then show ?case by simp
next
  case (Suc n)
  show ?case
  proof (cases i)
    case 0
    then show ?thesis by simp
  next
    case (Suc j)
    note j = this
    show ?thesis
    proof (cases j)
      case 0
      with j show ?thesis by simp
    next
      case (Suc k)
      with j Suc.prems have "k < 2 * n" by simp
      from Suc.IH [OF this] j Suc show ?thesis by simp
    qed
  qed
qed

lemma spec_weights_nth:
  "i < n \<Longrightarrow> spec_weights n ! i = (if even i then 3 else 7)"
  by (simp add: spec_weights_def concat_replicate_nth)

lemma digit_sum_positions:
  "digit_sum i cs =
   sum_list (map (\<lambda>j. (if even (i + j) then 3 else 7) * digit_value (cs ! j)) [0..<length cs])"
proof (induction cs arbitrary: i)
  case Nil
  then show ?case by simp
next
  case (Cons c cs)
  have "[0..<length (c # cs)] = 0 # map Suc [0..<length cs]"
    by (simp add: upt_conv_Cons map_Suc_upt del: upt_Suc)
  then show ?case
    by (simp add: Cons.IH comp_def del: upt_Suc)
qed

lemma digit_sum_spec: "digit_sum 0 ds = spec_weighted_sum ds"
proof -
  have eq: "map (\<lambda>j. (if even j then 3 else 7) * digit_value (ds ! j)) [0..<length ds] =
        map (\<lambda>i. spec_weights (length ds) ! i * digit_value (ds ! i)) [0..<length ds]"
    by (rule map_cong) (simp_all add: spec_weights_nth)
  have "digit_sum 0 ds =
        sum_list (map (\<lambda>j. (if even j then 3 else 7) * digit_value (ds ! j)) [0..<length ds])"
    using digit_sum_positions [of 0 ds] by simp
  also have "\<dots> = spec_weighted_sum ds"
    unfolding spec_weighted_sum_def eq ..
  finally show ?thesis .
qed

lemma padStart_spec: "length s \<le> 9 \<Longrightarrow> padStart s 9 (CHR ''0'') = spec_padded s"
  by (auto simp: padStart_def spec_padded_def)

lemma golden_value: "spec_check_digit ''123456789'' ''000014'' = 3"
  by code_simp

lemma golden_check_digit: "generateCheckDigit ''123456789'' ''000014'' = Inr (Num 3)"
  by code_simp

subsection \<open>Account numbers built from a serial and one more digit\<close>

lemma Number_char_digit_char: "d < 10 \<Longrightarrow> Number_char (digit_char d) = Num (int d)"
  by (simp add: Number_char_def isDigit_def digit_value_def digit_char_def)

lemma decimal_digit: "d < 10 \<Longrightarrow> decimal d = [digit_char d]"
  by (simp add: decimal.simps)

lemma number_toString_digit:
  "0 \<le> d \<Longrightarrow> d \<le> 9 \<Longrightarrow> number_toString (Num d) = [digit_char (nat d)]"
  by (simp add: decimal_digit number_toString.simps)

lemma isPossibleNubanBank_append:
  "length serial = 9 \<Longrightarrow>
   isPossibleNubanBank (serial @ [c]) bankCode =
     (case generateCheckDigit serial bankCode of
        Inl e \<Rightarrow> Inl e
      | Inr checkDigit \<Rightarrow> Inr (strict_eq checkDigit (Number_char c)))"
proof -
  assume len: "length serial = 9"
  then have "char_at (serial @ [c]) 9 = Some c"
    by (simp add: char_at_def nth_append)
  then show ?thesis
    using len by (simp add: isPossibleNubanBank_def substring0_def split: sum.splits)
qed

lemma isPossibleNubanBank_digit:
  assumes "length serial = 9" "list_all isDigit serial" "list_all isDigit bankCode"
    and "0 \<le> d" "d \<le> 9"
  shows "isPossibleNubanBank (serial @ number_toString (Num d)) bankCode =
         Inr (d = 9 - digit_sum 0 (bankCode @ padStart serial 9 (CHR ''0'')) mod 10)"
proof -
  from assms(1) have ne: "serial \<noteq> []" and le: "length serial \<le> 9" by auto
  have "nat d < 10" using assms(4,5) by simp
  then have "Number_char (digit_char (nat d)) = Num d"
    using assms(4) by (simp add: Number_char_digit_char)
  moreover have "number_toString (Num d) = [digit_char (nat d)]"
    using assms(4,5) by (rule number_toString_digit)
  ultimately show ?thesis
    using check_digit_closed_form [OF ne le assms(2,3)] assms(1)
    by (auto simp add: isPossibleNubanBank_append)
qed

subsection \<open>The filter over the candidate list\<close>

lemma isPossibleNubanBank_total:
  "accountNumber \<noteq> [] \<Longrightarrow> \<exists>r. isPossibleNubanBank accountNumber bankCode = Inr r"
  by (simp add: isPossibleNubanBank_def substring0_def generateCheckDigit_def
      validateNubanSerialCode_def NUBAN_SERIAL_CODE_LENGTH_def Let_def)

lemma getPossibleNubanBanks_filter:
  "accountNumber \<noteq> [] \<Longrightarrow>
   getPossibleNubanBanks accountNumber banks =
     Inr (filter (\<lambda>bank. isPossibleNubanBank accountNumber (code bank) = Inr True) banks)"
proof (induction banks)
  case Nil
  then show ?case by simp
next
  case (Cons bank banks)
  from isPossibleNubanBank_total [OF Cons.prems, of "code bank"]
  obtain r where "isPossibleNubanBank accountNumber (code bank) = Inr r" ..
  then show ?case
    using Cons.IH [OF Cons.prems] by simp
qed

lemma validateNuban_nonempty: "validateNuban accountNumber \<Longrightarrow> accountNumber \<noteq> []"
  by (simp add: validateNuban_def)

lemma validateNuban_example: "validateNuban ''0123456789''"
  by (simp add: validateNuban_def NUBAN_LENGTH_def isDigit_def)

subsection \<open>Legacy-code lookup on the weighted list\<close>

text \<open>
  Whatever the full list is, a lookup of the legacy code 058 finds the weighted list's
  entry named GUARANTY TRUST BANK, whose canonical code is 000013.
\<close>

lemma find_legacy_058:
  "find (\<lambda>bank. oldCode bank = Some ''058'') WEIGHTED_NIGERIAN_BANKS =
     Some \<lparr>bank_id = 10, slug = ''guarantee_trust_bank'', name = ''GUARANTY TRUST BANK'',
           code = ''000013'', oldCode = Some ''058'', weight = Some 1\<rparr>"
  by code_simp

lemma getBank_legacy_058:
  "getBank banks WEIGHTED_NIGERIAN_BANKS ''058'' OLD_CODE =
     Some \<lparr>bank_id = 10, slug = ''guarantee_trust_bank'', name = ''GUARANTY TRUST BANK'',
           code = ''000013'', oldCode = Some ''058'', weight = Some 1\<rparr>"
  by (simp add: getBank_def find_legacy_058)

subsection \<open>The operations on the static state and the functions of their arguments\<close>

lemma validateNubanSerialCode_op_eq:
  "validateNubanSerialCode_op nubanSerialCode st = (validateNubanSerialCode nubanSerialCode, st)"
  by (simp add: validateNubanSerialCode_op_def validateNubanSerialCode_def op_throw_def op_return_def)

lemma generateSeed_op_eq: "generateSeed_op len st = (Inr (generateSeed len), st)"
  by (simp add: generateSeed_op_def generateSeed_def op_return_def)

lemma generateCheckDigit_op_eq:
  "generateCheckDigit_op nubanSerialCode bankCode st = (generateCheckDigit nubanSerialCode bankCode, st)"
proof (cases "validateNubanSerialCode nubanSerialCode")
  case (Inl e)
  then show ?thesis
    by (simp add: generateCheckDigit_op_def generateCheckDigit_def op_bind_def
        validateNubanSerialCode_op_eq)
next
  case (Inr ok)
  then show ?thesis
    by (simp add: generateCheckDigit_op_def generateCheckDigit_def op_bind_def op_return_def
        validateNubanSerialCode_op_eq generateSeed_op_eq Let_def)
qed

lemma isPossibleNubanBank_op_eq:
  "isPossibleNubanBank_op accountNumber bankCode st = (isPossibleNubanBank accountNumber bankCode, st)"
  by (cases "generateCheckDigit (substring0 accountNumber 9) bankCode")
    (simp_all add: isPossibleNubanBank_op_def isPossibleNubanBank_def op_bind_def op_return_def
      generateCheckDigit_op_eq Let_def)

lemma filter_op_eq:
  "filter_op (\<lambda>bank. isPossibleNubanBank_op accountNumber (code bank)) candidates st =
     (getPossibleNubanBanks accountNumber candidates, st)"
proof (induction candidates)
  case Nil
  then show ?case by (simp add: op_return_def)
next
  case (Cons bank candidates)
  then show ?case
    by (simp add: op_bind_def op_return_def isPossibleNubanBank_op_eq split: sum.splits)
qed

lemma getPossibleNubanBanks_op_eq:
  "getPossibleNubanBanks_op accountNumber banksArg st =
     (getPossibleNubanBanks accountNumber
        (case banksArg of None \<Rightarrow> static_banks st | Some given \<Rightarrow> given), st)"
  by (cases banksArg)
    (simp_all add: getPossibleNubanBanks_op_def op_bind_def op_return_def read_banks_def filter_op_eq)

text \<open>A call that leaves the second argument out does depend on what was assigned before it:
  the same call finds ZENITH BANK after one assignment and nothing after another.\<close>

lemma zenith_possible: "isPossibleNubanBank ''0123456789'' ''000015'' = Inr True"
  by code_simp

lemma default_banks_depend_on_history:
  "outcome_after [AssignBanks []] st (GetPossibleNubanBanks ''0123456789'' None) \<noteq>
   outcome_after
     [AssignBanks [\<lparr>bank_id = 31, slug = ''zenith_bank'', name = ''ZENITH BANK'', code = ''000015'',
                    oldCode = Some ''057'', weight = Some 1\<rparr>]] st
     (GetPossibleNubanBanks ''0123456789'' None)"
  by (simp add: outcome_after_def getPossibleNubanBanks_op_eq zenith_possible)

section \<open>Claims\<close>

text \<open>
  C1 (as amended). For every non-empty serial of at most 9 digits and every bank code made of
  digits, \<open>generateCheckDigit\<close> returns exactly the value of the documented reference
  algorithm: the serial padded on the left with zeros to 9 digits, the bank code in front,
  weights 3, 7, 3, 7, ... from position 0, the weighted sum modulo 10, and
  \<open>10 - modulo - 1\<close>.
\<close>

theorem generateCheckDigit_reference:
  assumes "serial \<noteq> []" and "length serial \<le> 9"
    and "list_all isDigit serial" and "list_all isDigit bankCode"
  shows "generateCheckDigit serial bankCode = Inr (Num (spec_check_digit serial bankCode))"
  using check_digit_closed_form [OF assms] assms(2)
  by (simp add: padStart_spec digit_sum_spec spec_check_digit_def)

text \<open>
  The theorem at serial 123456789 and bank code 000014, where the check digit is 3.
\<close>

theorem generateCheckDigit_reference_witness:
  "''123456789'' \<noteq> [] \<and> length ''123456789'' \<le> 9 \<and>
   list_all isDigit ''123456789'' \<and> list_all isDigit ''000014'' \<and>
   generateCheckDigit ''123456789'' ''000014'' = Inr (Num (spec_check_digit ''123456789'' ''000014'')) \<and>
   generateCheckDigit ''123456789'' ''000014'' = Inr (Num 3)"
  using generateCheckDigit_reference [of "''123456789''" "''000014''"]
  by (simp add: isDigit_def golden_value)

text \<open>
  The empty serial has at most 9 digits, yet the code throws there where the reference
  algorithm yields a digit.
\<close>

theorem generateCheckDigit_reference_counterexample:
  "length ([] :: string) \<le> 9 \<and> list_all isDigit [] \<and> list_all isDigit ''000014'' \<and>
   generateCheckDigit [] ''000014'' \<noteq> Inr (Num (spec_check_digit [] ''000014''))"
  by (simp add: empty_serial_rejected isDigit_def)

text \<open>
  C2 (as amended). \<open>generateCheckDigit\<close> fails with \<open>InvalidSerialLength\<close> if and only if
  the serial is empty or longer than 9 characters; every serial of 1 to 9 characters is
  accepted, and when serial and bank code are made of digits the result is a check digit
  between 0 and 9.
\<close>

theorem generateCheckDigit_error_iff:
  "(generateCheckDigit serial bankCode = Inl InvalidSerialLength
      \<longleftrightarrow> serial = [] \<or> 9 < length serial) \<and>
   ((\<exists>checkDigit. generateCheckDigit serial bankCode = Inr checkDigit)
      \<longleftrightarrow> serial \<noteq> [] \<and> length serial \<le> 9) \<and>
   (serial \<noteq> [] \<and> length serial \<le> 9 \<and> list_all isDigit serial \<and> list_all isDigit bankCode
      \<longrightarrow> (\<exists>d. generateCheckDigit serial bankCode = Inr (Num d) \<and> 0 \<le> d \<and> d \<le> 9))"
proof (intro conjI impI)
  show "generateCheckDigit serial bankCode = Inl InvalidSerialLength
          \<longleftrightarrow> serial = [] \<or> 9 < length serial"
  proof
    assume err: "generateCheckDigit serial bankCode = Inl InvalidSerialLength"
    show "serial = [] \<or> 9 < length serial"
    proof (rule ccontr)
      assume "\<not> (serial = [] \<or> 9 < length serial)"
      then have "serial \<noteq> []" and "length serial \<le> 9" by auto
      from serial_accepted [OF this, of bankCode] err show False by auto
    qed
  next
    assume "serial = [] \<or> 9 < length serial"
    then show "generateCheckDigit serial bankCode = Inl InvalidSerialLength"
      using empty_serial_rejected long_serial_rejected by blast
  qed
next
  show "(\<exists>checkDigit. generateCheckDigit serial bankCode = Inr checkDigit)
          \<longleftrightarrow> serial \<noteq> [] \<and> length serial \<le> 9"
  proof
    assume ok: "\<exists>checkDigit. generateCheckDigit serial bankCode = Inr checkDigit"
    show "serial \<noteq> [] \<and> length serial \<le> 9"
    proof (rule ccontr)
      assume "\<not> (serial \<noteq> [] \<and> length serial \<le> 9)"
      then have "serial = [] \<or> 9 < length serial" by auto
      then have "generateCheckDigit serial bankCode = Inl InvalidSerialLength"
        using empty_serial_rejected long_serial_rejected by blast
      with ok show False by auto
    qed
  next
    assume "serial \<noteq> [] \<and> length serial \<le> 9"
    then show "\<exists>checkDigit. generateCheckDigit serial bankCode = Inr checkDigit"
      using serial_accepted by blast
  qed
next
  assume "serial \<noteq> [] \<and> length serial \<le> 9 \<and> list_all isDigit serial \<and> list_all isDigit bankCode"
  then show "\<exists>d. generateCheckDigit serial bankCode = Inr (Num d) \<and> 0 \<le> d \<and> d \<le> 9"
    using check_digit_in_range by blast
qed

text \<open>
  The theorem at a serial of 10 characters, which is rejected, and at one of exactly 9
  digits, which is accepted.
\<close>

theorem generateCheckDigit_error_iff_witness:
  "generateCheckDigit ''1234567890'' ''000014'' = Inl InvalidSerialLength \<and>
   generateCheckDigit ''123456789'' ''000014'' \<noteq> Inl InvalidSerialLength \<and>
   (\<exists>d. generateCheckDigit ''123456789'' ''000014'' = Inr (Num d) \<and> 0 \<le> d \<and> d \<le> 9)"
  using generateCheckDigit_error_iff [of "''1234567890''" "''000014''"]
    generateCheckDigit_error_iff [of "''123456789''" "''000014''"]
  by (simp add: isDigit_def)

text \<open>
  The empty serial does not exceed 9 digits and is rejected all the same.
\<close>

theorem generateCheckDigit_error_counterexample:
  "length ([] :: string) \<le> 9 \<and> generateCheckDigit [] ''000014'' = Inl InvalidSerialLength"
  by (simp add: empty_serial_rejected)

text \<open>
  C4 (as amended). Round trip: for every serial of exactly 9 digits and every bank code made
  of digits, the serial followed by its check digit is an account number that
  \<open>isPossibleNubanBank\<close> accepts for the same bank code.
\<close>

theorem round_trip_nine_digits:
  assumes "length serial = 9" "list_all isDigit serial" "list_all isDigit bankCode"
  shows "round_trip serial bankCode = Inr True"
proof -
  let ?d = "9 - digit_sum 0 (bankCode @ padStart serial 9 (CHR ''0'')) mod 10"
  from assms(1) have ne: "serial \<noteq> []" and le: "length serial \<le> 9" by auto
  have gen: "generateCheckDigit serial bankCode = Inr (Num ?d)"
    by (rule check_digit_closed_form [OF ne le assms(2,3)])
  have "list_all isDigit (bankCode @ padStart serial 9 (CHR ''0''))"
    using assms(2,3) by (simp add: padStart_digits)
  then have "0 \<le> ?d" and "?d \<le> 9"
    using check_digit_range by blast+
  then have "isPossibleNubanBank (serial @ number_toString (Num ?d)) bankCode = Inr True"
    using isPossibleNubanBank_digit [OF assms, of ?d] by simp
  then show ?thesis
    by (simp add: round_trip_def gen)
qed

text \<open>
  The theorem at serial 123456789 and bank code 000014.
\<close>

theorem round_trip_nine_digits_witness:
  "length ''123456789'' = 9 \<and> list_all isDigit ''123456789'' \<and> list_all isDigit ''000014'' \<and>
   round_trip ''123456789'' ''000014'' = Inr True"
  using round_trip_nine_digits [of "''123456789''" "''000014''"]
  by (simp add: isDigit_def)

text \<open>
  For the one-digit serial 1 and bank code 000014 the check digit is 5, and the two-character
  account number 15 is not accepted: it has no tenth character to compare with.
\<close>

theorem round_trip_counterexample:
  "length ''1'' \<le> 9 \<and> list_all isDigit ''1'' \<and> list_all isDigit ''000014'' \<and>
   round_trip ''1'' ''000014'' = Inr False"
  by code_simp

text \<open>
  C5. Uniqueness of the check digit: for every 9-digit serial and every bank code made of
  digits, exactly one digit value between 0 and 9, appended to the serial, makes
  \<open>isPossibleNubanBank\<close> true, and every digit other than the computed check digit makes
  it false.
\<close>

theorem check_digit_unique:
  assumes "length serial = 9" "list_all isDigit serial" "list_all isDigit bankCode"
  shows "(\<exists>!d. 0 \<le> d \<and> d \<le> 9 \<and>
            isPossibleNubanBank (serial @ number_toString (Num d)) bankCode = Inr True) \<and>
         (\<forall>d. 0 \<le> d \<and> d \<le> 9 \<and> generateCheckDigit serial bankCode \<noteq> Inr (Num d) \<longrightarrow>
            isPossibleNubanBank (serial @ number_toString (Num d)) bankCode = Inr False)"
proof -
  let ?cd = "9 - digit_sum 0 (bankCode @ padStart serial 9 (CHR ''0'')) mod 10"
  from assms(1) have ne: "serial \<noteq> []" and le: "length serial \<le> 9" by auto
  have gen: "generateCheckDigit serial bankCode = Inr (Num ?cd)"
    by (rule check_digit_closed_form [OF ne le assms(2,3)])
  have "list_all isDigit (bankCode @ padStart serial 9 (CHR ''0''))"
    using assms(2,3) by (simp add: padStart_digits)
  then have range: "0 \<le> ?cd" "?cd \<le> 9"
    using check_digit_range by blast+
  have match: "isPossibleNubanBank (serial @ number_toString (Num d)) bankCode = Inr (d = ?cd)"
    if "0 \<le> d" "d \<le> 9" for d
    using isPossibleNubanBank_digit [OF assms that] .
  have "\<exists>!d. 0 \<le> d \<and> d \<le> 9 \<and>
          isPossibleNubanBank (serial @ number_toString (Num d)) bankCode = Inr True"
  proof (rule ex1I [of _ ?cd])
    show "0 \<le> ?cd \<and> ?cd \<le> 9 \<and>
          isPossibleNubanBank (serial @ number_toString (Num ?cd)) bankCode = Inr True"
      using range match [OF range] by simp
  next
    fix d
    assume d: "0 \<le> d \<and> d \<le> 9 \<and>
          isPossibleNubanBank (serial @ number_toString (Num d)) bankCode = Inr True"
    then have "Inr (d = ?cd) = (Inr True :: error + bool)"
      using match [of d] by simp
    then show "d = ?cd" by simp
  qed
  moreover have "\<forall>d. 0 \<le> d \<and> d \<le> 9 \<and> generateCheckDigit serial bankCode \<noteq> Inr (Num d) \<longrightarrow>
            isPossibleNubanBank (serial @ number_toString (Num d)) bankCode = Inr False"
  proof (intro allI impI)
    fix d
    assume d: "0 \<le> d \<and> d \<le> 9 \<and> generateCheckDigit serial bankCode \<noteq> Inr (Num d)"
    then have "d \<noteq> ?cd" using gen by auto
    then show "isPossibleNubanBank (serial @ number_toString (Num d)) bankCode = Inr False"
      using match [of d] d by simp
  qed
  ultimately show ?thesis by blast
qed

text \<open>
  The theorem at serial 123456789 and bank code 000014: the check digit is 3, and the
  account number ending in 4 is rejected.
\<close>

theorem check_digit_unique_witness:
  "length ''123456789'' = 9 \<and> list_all isDigit ''123456789'' \<and> list_all isDigit ''000014'' \<and>
   (\<exists>!d. 0 \<le> d \<and> d \<le> 9 \<and>
      isPossibleNubanBank (''123456789'' @ number_toString (Num d)) ''000014'' = Inr True) \<and>
   isPossibleNubanBank (''123456789'' @ number_toString (Num 4)) ''000014'' = Inr False"
proof -
  have pre: "length ''123456789'' = 9" "list_all isDigit ''123456789''" "list_all isDigit ''000014''"
    by (simp_all add: isDigit_def)
  note u = check_digit_unique [OF pre]
  from u have "0 \<le> (4::int) \<and> (4::int) \<le> 9 \<and>
      generateCheckDigit ''123456789'' ''000014'' \<noteq> Inr (Num 4) \<longrightarrow>
      isPossibleNubanBank (''123456789'' @ number_toString (Num 4)) ''000014'' = Inr False"
    by blast
  then have "isPossibleNubanBank (''123456789'' @ number_toString (Num 4)) ''000014'' = Inr False"
    by (simp add: golden_check_digit)
  with pre u show ?thesis by blast
qed

text \<open>
  C6. For every 9-digit serial and every 6-digit bank code, \<open>generateCheckDigit\<close> returns an
  integer between 0 and 9: it is 9 minus a remainder modulo 10 of a sum that is not
  negative, so nothing has to be clamped.
\<close>

theorem generateCheckDigit_range:
  assumes "length serial = 9" "list_all isDigit serial"
    and "length bankCode = 6" "list_all isDigit bankCode"
  shows "\<exists>d. generateCheckDigit serial bankCode = Inr (Num d) \<and> 0 \<le> d \<and> d \<le> 9"
proof -
  from assms(1) have "serial \<noteq> []" and "length serial \<le> 9" by auto
  then show ?thesis
    using assms(2,4) by (rule check_digit_in_range)
qed

text \<open>
  The theorem at serial 123456789 and bank code 000015.
\<close>

theorem generateCheckDigit_range_witness:
  "length ''123456789'' = 9 \<and> list_all isDigit ''123456789'' \<and>
   length ''000015'' = 6 \<and> list_all isDigit ''000015'' \<and>
   (\<exists>d. generateCheckDigit ''123456789'' ''000015'' = Inr (Num d) \<and> 0 \<le> d \<and> d \<le> 9)"
  using generateCheckDigit_range [of "''123456789''" "''000015''"]
  by (simp add: isDigit_def)

text \<open>
  C7. For every account number of 10 digits and every candidate list,
  \<open>getPossibleNubanBanks\<close> returns a subsequence of the candidates: each returned record
  occurs in the input, in the input's relative order, and nothing is added. The result is
  the candidates filtered by \<open>isPossibleNubanBank\<close> on each record's \<open>code\<close>.
\<close>

theorem getPossibleNubanBanks_subseq:
  assumes "validateNuban accountNumber"
  shows "\<exists>kept. getPossibleNubanBanks accountNumber banks = Inr kept \<and>
                kept = filter (\<lambda>bank. isPossibleNubanBank accountNumber (code bank) = Inr True) banks \<and>
                subseq kept banks \<and> set kept \<subseteq> set banks"
proof -
  let ?kept = "filter (\<lambda>bank. isPossibleNubanBank accountNumber (code bank) = Inr True) banks"
  have "getPossibleNubanBanks accountNumber banks = Inr ?kept"
    using assms by (intro getPossibleNubanBanks_filter validateNuban_nonempty)
  moreover have "subseq ?kept banks" by simp
  moreover have "set ?kept \<subseteq> set banks" by auto
  ultimately show ?thesis by blast
qed

text \<open>
  The theorem at account number 0123456789 and the weighted list.
\<close>

theorem getPossibleNubanBanks_subseq_witness:
  "validateNuban ''0123456789'' \<and>
   (\<exists>kept. getPossibleNubanBanks ''0123456789'' WEIGHTED_NIGERIAN_BANKS = Inr kept \<and>
           subseq kept WEIGHTED_NIGERIAN_BANKS \<and> set kept \<subseteq> set WEIGHTED_NIGERIAN_BANKS)"
  using getPossibleNubanBanks_subseq [OF validateNuban_example, of WEIGHTED_NIGERIAN_BANKS]
    validateNuban_example
  by blast

text \<open>
  C8. \<open>generateCheckDigit\<close> is deterministic: two invocations with the same serial and bank
  code give equal results, whatever the static state each starts from and whatever sequence
  of calls and assignments to the static fields came before each. The result is the value
  of the function of the two arguments, a thrown error included, and the invocation leaves
  the static state as it found it, so it changes nothing for the calls after it.
\<close>

theorem generateCheckDigit_deterministic:
  "outcome_after history1 st1 (GenerateCheckDigit serial bankCode) =
     outcome_after history2 st2 (GenerateCheckDigit serial bankCode) \<and>
   outcome_after history1 st1 (GenerateCheckDigit serial bankCode) =
     CheckDigit (generateCheckDigit serial bankCode) \<and>
   run (history1 @ [GenerateCheckDigit serial bankCode]) st1 = run history1 st1"
proof -
  have result: "outcome_after history st (GenerateCheckDigit serial bankCode) =
                CheckDigit (generateCheckDigit serial bankCode)" for history st
    by (simp add: outcome_after_def generateCheckDigit_op_eq)
  have append: "run (history @ [c]) st = snd (exec c (run history st))" for history c st
    by (induction history arbitrary: st) simp_all
  have "run (history1 @ [GenerateCheckDigit serial bankCode]) st1 = run history1 st1"
    by (simp add: append generateCheckDigit_op_eq)
  with result show ?thesis by simp
qed

text \<open>
  The theorem at serial 123456789 and bank code 000014, once as the first call of a program
  and once after an assignment to \<open>Nuban.banks\<close>, a call that throws and a call of
  \<open>getPossibleNubanBanks\<close>: the check digit is 3 both times.
\<close>

theorem generateCheckDigit_deterministic_witness:
  "outcome_after [] \<lparr>static_banks = [], static_weightedBanks = WEIGHTED_NIGERIAN_BANKS\<rparr>
     (GenerateCheckDigit ''123456789'' ''000014'') =
   outcome_after
     [AssignBanks WEIGHTED_NIGERIAN_BANKS, GenerateCheckDigit [] ''000014'',
      GetPossibleNubanBanks ''0123456789'' None]
     \<lparr>static_banks = [], static_weightedBanks = []\<rparr>
     (GenerateCheckDigit ''123456789'' ''000014'') \<and>
   outcome_after [] \<lparr>static_banks = [], static_weightedBanks = WEIGHTED_NIGERIAN_BANKS\<rparr>
     (GenerateCheckDigit ''123456789'' ''000014'') = CheckDigit (Inr (Num 3))"
proof -
  note inst = generateCheckDigit_deterministic
    [of "[]" "\<lparr>static_banks = [], static_weightedBanks = WEIGHTED_NIGERIAN_BANKS\<rparr>"
        "''123456789''" "''000014''"
        "[AssignBanks WEIGHTED_NIGERIAN_BANKS, GenerateCheckDigit [] ''000014'',
          GetPossibleNubanBanks ''0123456789'' None]"
        "\<lparr>static_banks = [], static_weightedBanks = []\<rparr>"]
  from inst have same:
    "outcome_after [] \<lparr>static_banks = [], static_weightedBanks = WEIGHTED_NIGERIAN_BANKS\<rparr>
       (GenerateCheckDigit ''123456789'' ''000014'') =
     outcome_after
       [AssignBanks WEIGHTED_NIGERIAN_BANKS, GenerateCheckDigit [] ''000014'',
        GetPossibleNubanBanks ''0123456789'' None]
       \<lparr>static_banks = [], static_weightedBanks = []\<rparr>
       (GenerateCheckDigit ''123456789'' ''000014'')"
    by (rule conjunct1)
  from inst have
    "outcome_after [] \<lparr>static_banks = [], static_weightedBanks = WEIGHTED_NIGERIAN_BANKS\<rparr>
       (GenerateCheckDigit ''123456789'' ''000014'') =
     CheckDigit (generateCheckDigit ''123456789'' ''000014'')"
    by (rule conjunct1 [OF conjunct2])
  then have
    "outcome_after [] \<lparr>static_banks = [], static_weightedBanks = WEIGHTED_NIGERIAN_BANKS\<rparr>
       (GenerateCheckDigit ''123456789'' ''000014'') = CheckDigit (Inr (Num 3))"
    by (simp only: golden_check_digit)
  with same show ?thesis by (rule conjI)
qed

text \<open>
  C9. For the empty serial, whatever the bank code, \<open>generateCheckDigit\<close> fails with the
  error "Nuban serial code should not be more than 9 digits": the guard of
  \<open>validateNubanSerialCode\<close> rejects a falsy serial although its length does not exceed 9.
\<close>

theorem generateCheckDigit_empty_serial:
  "generateCheckDigit [] bankCode = Inl (Error ''Nuban serial code should not be more than 9 digits'')"
  by (simp add: generateCheckDigit_def validateNubanSerialCode_empty)

text \<open>
  C10. For every account number of exactly 10 digits and every candidate list,
  \<open>getPossibleNubanBanks\<close> returns a list and does not throw: the serial, the first 9
  characters, is non-empty and of length 9, \<open>validateNubanSerialCode\<close> accepts it, and
  \<open>generateCheckDigit\<close> returns a value for every bank code.
\<close>

theorem getPossibleNubanBanks_no_throw:
  assumes "validateNuban accountNumber"
  shows "(\<exists>kept. getPossibleNubanBanks accountNumber banks = Inr kept) \<and>
         substring0 accountNumber 9 \<noteq> [] \<and>
         length (substring0 accountNumber 9) = 9 \<and>
         validateNubanSerialCode (substring0 accountNumber 9) = Inr True \<and>
         (\<exists>checkDigit. generateCheckDigit (substring0 accountNumber 9) bankCode = Inr checkDigit)"
proof -
  from assms have len: "length accountNumber = 10"
    by (simp add: validateNuban_def NUBAN_LENGTH_def)
  then have serial: "length (substring0 accountNumber 9) = 9"
    by (simp add: substring0_def)
  then have ne: "substring0 accountNumber 9 \<noteq> []" and le: "length (substring0 accountNumber 9) \<le> 9"
    by auto
  have "\<exists>kept. getPossibleNubanBanks accountNumber banks = Inr kept"
    using getPossibleNubanBanks_filter [OF validateNuban_nonempty [OF assms]] by blast
  then show ?thesis
    using serial ne validateNubanSerialCode_ok [OF ne le] serial_accepted [OF ne le]
    by blast
qed

text \<open>
  The theorem at account number 0123456789 and the weighted list.
\<close>

theorem getPossibleNubanBanks_no_throw_witness:
  "validateNuban ''0123456789'' \<and>
   (\<exists>kept. getPossibleNubanBanks ''0123456789'' WEIGHTED_NIGERIAN_BANKS = Inr kept) \<and>
   validateNubanSerialCode (substring0 ''0123456789'' 9) = Inr True"
  using getPossibleNubanBanks_no_throw [OF validateNuban_example, of WEIGHTED_NIGERIAN_BANKS]
    validateNuban_example
  by blast

end
